theory Spec2Isabelle
  imports Main "HOL-Library.AList"
begin

section \<open>Python values, exceptions and the observable world\<close>

text \<open>
  The program is a prompt-orchestration layer (\<^verbatim>\<open>src/app.py\<close>): it formats a prompt, calls a
  hosted generative model, parses the reply with \<^verbatim>\<open>json.loads\<close> and returns a dictionary.
  Values that \<^verbatim>\<open>json.loads\<close> can produce are modelled by \<open>json\<close>; a dictionary is an
  association list in insertion order whose update (\<open>AList.update\<close>) keeps the position of an
  existing key and appends a new one, as a Python \<^verbatim>\<open>dict\<close> does.  A float is carried as an
  opaque mantissa/exponent pair; the program never inspects one.
\<close>

datatype json =
    JNull
  | JBool bool
  | JInt int
  | JFloat int int
  | JStr string
  | JArr "json list"
  | JObj "(string \<times> json) list"

text \<open>
  Exceptions are values.  Only subclasses of \<^verbatim>\<open>Exception\<close> are modelled, which is what the
  handlers \<^verbatim>\<open>except Exception\<close> of the source catch; \<open>exn_str\<close> is \<^verbatim>\<open>str(e)\<close>.
\<close>

datatype exn_class = AttributeError | JSONDecodeError | TypeError | KeyError | OtherException string

datatype exn = Exn (exn_class: exn_class) (exn_str: string)

text \<open>
  What the program does besides returning: log records, console output, sleeps.  The three
  \<^verbatim>\<open>print\<close> statements of \<^verbatim>\<open>send_alert\<close> (lines 277, 278, 280) are events that
  carry the values the f-strings interpolate.
\<close>

datatype event =
    LogInfo string
  | LogWarning string
  | LogError string
  | Print string
  | PrintAlert string
  | PrintRisk json
  | PrintHazard json json
  | Sleep int

record world =
  model_calls :: nat
  clock_reads :: nat
  events :: "event list"

text \<open>
  The external collaborators are parameters.  \<open>generate_content k m contents\<close> is the outcome of
  the \<open>k\<close>-th call of the model named \<open>m\<close> on \<open>contents\<close>, followed by reading the
  \<^verbatim>\<open>.text\<close> of the response: an exception, or the text (possibly empty).  In each function
  of the source the call and the reads of \<^verbatim>\<open>.text\<close> stand in the same \<^verbatim>\<open>try\<close> block.
  \<open>json_loads\<close> is \<^verbatim>\<open>json.loads\<close>; \<open>now_isoformat k\<close> is the \<open>k\<close>-th reading of
  \<^verbatim>\<open>datetime.now().isoformat()\<close>.
\<close>

record env =
  generate_content :: "nat \<Rightarrow> string \<Rightarrow> string list \<Rightarrow> exn + string"
  json_loads :: "string \<Rightarrow> exn + json"
  now_isoformat :: "nat \<Rightarrow> string"

definition emit :: "event \<Rightarrow> world \<Rightarrow> world" where
  "emit ev w = w\<lparr>events := events w @ [ev]\<rparr>"

definition model_generate_content ::
  "env \<Rightarrow> string \<Rightarrow> string list \<Rightarrow> world \<Rightarrow> (exn + string) \<times> world" where
  "model_generate_content E m contents w =
     (generate_content E (model_calls w) m contents, w\<lparr>model_calls := Suc (model_calls w)\<rparr>)"

definition datetime_now_isoformat :: "env \<Rightarrow> world \<Rightarrow> string \<times> world" where
  "datetime_now_isoformat E w =
     (now_isoformat E (clock_reads w), w\<lparr>clock_reads := Suc (clock_reads w)\<rparr>)"

section \<open>Strings\<close>

text \<open>
  A \<open>char\<close> stands for one code point below 256; the fence markers and every literal of the
  source are ASCII.  \<open>isspace\<close> lists the code points below 256 that \<^verbatim>\<open>str.strip()\<close>
  removes.
\<close>

definition isspace :: "char \<Rightarrow> bool" where
  "isspace c = (c \<in> set [CHR 0x09, CHR 0x0A, CHR 0x0B, CHR 0x0C, CHR 0x0D, CHR 0x1C, CHR 0x1D,
     CHR 0x1E, CHR 0x1F, CHR 0x20, CHR 0x85, CHR 0xA0])"

definition strip :: "string \<Rightarrow> string" where
  "strip s = rev (dropWhile isspace (rev (dropWhile isspace s)))"

definition startswith :: "string \<Rightarrow> string \<Rightarrow> bool" where
  "startswith s p = (take (length p) s = p)"

text \<open>\<^verbatim>\<open>xs[i:j]\<close>: a negative index counts from the end, and both are clipped to the list.\<close>

definition py_slice :: "'a list \<Rightarrow> int \<Rightarrow> int \<Rightarrow> 'a list" where
  "py_slice xs i j =
     (let n = int (length xs);
          lo = (if i < 0 then max 0 (n + i) else min i n);
          hi = (if j < 0 then max 0 (n + j) else min j n)
      in take (nat (hi - lo)) (drop (nat lo) xs))"

text \<open>A name between apostrophes, as the messages of Python's exceptions show it.\<close>

definition quoted :: "string \<Rightarrow> string" where
  "quoted s = [CHR 0x27] @ s @ [CHR 0x27]"

text \<open>\<^verbatim>\<open>sep.join(xs)\<close>.\<close>

fun join :: "string \<Rightarrow> string list \<Rightarrow> string" where
  "join sep [] = []"
| "join sep [x] = x"
| "join sep (x # y # ys) = x @ sep @ join sep (y # ys)"

text \<open>\<^verbatim>\<open>str(n)\<close> of a natural number, as the f-strings format \<^verbatim>\<open>len(posts)\<close> and \<^verbatim>\<open>i+1\<close>.\<close>

definition digit_char :: "nat \<Rightarrow> char" where
  "digit_char d = ''0123456789'' ! (d mod 10)"

function str_nat :: "nat \<Rightarrow> string" where
  "str_nat n = (if n < 10 then [digit_char n] else str_nat (n div 10) @ [digit_char (n mod 10)])"
  by pat_completeness auto
termination
  by (relation "measure id") auto

declare str_nat.simps [simp del]

section \<open>The detector object\<close>

text \<open>
  \<^verbatim>\<open>OceanHazardDetector.__init__\<close> (lines 16--22) calls the process-wide
  \<^verbatim>\<open>genai.configure\<close> and stores two model handles.  \<open>genai_api_key\<close> is the key the
  client library holds afterwards.
\<close>

record genai =
  genai_api_key :: "string option"

definition genai_configure :: "string \<Rightarrow> genai \<Rightarrow> genai" where
  "genai_configure key g = g\<lparr>genai_api_key := Some key\<rparr>"

record detector =
  model :: string
  vision_model :: string

definition OceanHazardDetector_init :: "string \<Rightarrow> genai \<Rightarrow> detector \<times> genai" where
  "OceanHazardDetector_init api_key g =
     (\<lparr>model = ''gemini-2.5-flash'', vision_model = ''gemini-2.5-flash-vision''\<rparr>,
      genai_configure ''API_KEY'' g)"

text \<open>
  The class body of \<^verbatim>\<open>OceanHazardDetector\<close> ends at line 168: line 170 starts
  \<^verbatim>\<open>async def analyze_batch_social_posts\<close> in column 0, a function of the module.  The two
  definitions that follow at one level of indentation, \<^verbatim>\<open>_create_error_response\<close> (line 220)
  and \<^verbatim>\<open>get_multi_location_analysis\<close> (line 232), are statements of that function's body,
  placed after its \<^verbatim>\<open>try\<close>/\<^verbatim>\<open>except\<close> whose two branches both return.  So an instance
  has the attributes that \<^verbatim>\<open>__init__\<close> sets and the four methods of lines 16--168, and
  looking up any other name raises \<^verbatim>\<open>AttributeError\<close>.
\<close>

definition OceanHazardDetector_attributes :: "string list" where
  "OceanHazardDetector_attributes =
     [''model'', ''vision_model'', ''__init__'', ''create_hazard_analysis_prompt'',
      ''analyze_current_hazards'', ''analyze_user_report'']"

definition hasattr :: "string \<Rightarrow> bool" where
  "hasattr name = (name \<in> set OceanHazardDetector_attributes)"

definition attribute_error :: "string \<Rightarrow> exn" where
  \<open>attribute_error name =
     Exn AttributeError
       (quoted ''OceanHazardDetector'' @ '' object has no attribute '' @ quoted name)\<close>

section \<open>Prompts\<close>

definition create_hazard_analysis_prompt :: "string \<Rightarrow> string \<Rightarrow> string" where
  \<open>create_hazard_analysis_prompt location time_range = join ''\<newline>''
    [
     '''',
     ''        You are an ocean safety expert analyzing real-time data. Search the web for current ocean hazards and conditions near '' @ location @ '' within the last '' @ time_range @ ''.'',
     '''',
     ''        Look for information about:'',
     ''        1. IMMEDIATE HAZARDS:'',
     ''           - Shark sightings or attacks'',
     ''           - Jellyfish blooms'',
     ''           - Riptide/rip current warnings'',
     ''           - Large waves or dangerous surf'',
     ''           - Water pollution incidents'',
     ''           - Beach closures'',
     '''',
     ''        2. WEATHER-RELATED:'',
     ''           - Storm conditions'',
     ''           - High winds'',
     ''           - Tsunami warnings'',
     ''           - Storm surge alerts'',
     '''',
     ''        3. OFFICIAL SOURCES:'',
     ''           - Coast Guard announcements'',
     ''           - Lifeguard reports'',
     ''           - Local government warnings'',
     ''           - Weather service alerts'',
     '''',
     ''        4. SOCIAL MEDIA REPORTS:'',
     ''           - User reports of dangerous conditions'',
     ''           - Photos/videos of hazardous situations'',
     ''           - Local community warnings'',
     '''',
     ''        Analyze the credibility of each source and return results in this EXACT JSON format:'',
     '''',
     ''        {'',
     ''            "location": "'' @ location @ ''",'',
     ''            "analysis_time": "current timestamp",'',
     ''            "overall_risk_level": "LOW/MEDIUM/HIGH/EXTREME",'',
     ''            "hazards": ['',
     ''                {'',
     ''                    "type": "hazard type (shark, riptide, pollution, etc.)",'',
     ''                    "severity": "LOW/MEDIUM/HIGH/EXTREME", '',
     ''                    "location_specific": "specific beach/area if mentioned",'',
     ''                    "description": "detailed description of the hazard",'',
     ''                    "source": "where this information came from",'',
     ''                    "credibility": "HIGH/MEDIUM/LOW based on source reliability",'',
     ''                    "reported_time": "when this was reported",'',
     ''                    "coordinates": "lat,lng if available",'',
     ''                    "recommended_action": "what people should do"'',
     ''                }'',
     ''            ],'',
     ''            "safe_areas": ["list of areas reported as safe"],'',
     ''            "general_conditions": "overall summary of ocean conditions",'',
     ''            "last_updated": "timestamp"'',
     ''        }'',
     '''',
     ''        IMPORTANT: Return ONLY valid JSON. No additional text or explanation.'',
     ''        '']\<close>

section \<open>The hazard scan\<close>

text \<open>
  \<^verbatim>\<open>_create_error_response\<close> (lines 220--230): the function that the source defines, as it
  computes when it is called.
\<close>

definition create_error_response :: "env \<Rightarrow> string \<Rightarrow> string \<Rightarrow> world \<Rightarrow> json \<times> world" where
  "create_error_response E location error w =
     (let (now, w') = datetime_now_isoformat E w
      in (JObj [(''location'', JStr location),
                (''overall_risk_level'', JStr ''UNKNOWN''),
                (''hazards'', JArr []),
                (''error'', JStr error),
                (''analysis_time'', JStr now)], w'))"

text \<open>
  The call \<^verbatim>\<open>self._create_error_response(location, error)\<close> of lines 94, 115 and 119: the
  attribute is looked up on the instance before the arguments are evaluated.
\<close>

definition self_create_error_response ::
  "env \<Rightarrow> string \<Rightarrow> string \<Rightarrow> world \<Rightarrow> (exn + json) \<times> world" where
  "self_create_error_response E location error w =
     (if hasattr ''_create_error_response''
      then (let (r, w') = create_error_response E location error w in (Inr r, w'))
      else (Inl (attribute_error ''_create_error_response''), w))"

text \<open>
  Operations of Python on a parsed value, with the exception each raises on the wrong type:
  \<^verbatim>\<open>d[k] = v\<close> and \<^verbatim>\<open>d[k]\<close> with a string key, \<^verbatim>\<open>d.get(k, default)\<close>,
  \<^verbatim>\<open>d.items()\<close>, and the items a \<^verbatim>\<open>for\<close> loop visits.
\<close>

fun type_name :: "json \<Rightarrow> string" where
  "type_name JNull = ''NoneType''"
| "type_name (JBool b) = ''bool''"
| "type_name (JInt i) = ''int''"
| "type_name (JFloat m e) = ''float''"
| "type_name (JStr s) = ''str''"
| "type_name (JArr xs) = ''list''"
| "type_name (JObj d) = ''dict''"

fun setitem :: "json \<Rightarrow> string \<Rightarrow> json \<Rightarrow> exn + json" where
  "setitem (JObj d) k v = Inr (JObj (AList.update k v d))"
| "setitem (JArr xs) k v = Inl (Exn TypeError ''list indices must be integers or slices, not str'')"
| "setitem j k v =
     Inl (Exn TypeError (quoted (type_name j) @ '' object does not support item assignment''))"

fun getitem :: "json \<Rightarrow> string \<Rightarrow> exn + json" where
  "getitem (JObj d) k = (case map_of d k of Some v \<Rightarrow> Inr v | None \<Rightarrow> Inl (Exn KeyError (quoted k)))"
| "getitem (JArr xs) k = Inl (Exn TypeError ''list indices must be integers or slices, not str'')"
| "getitem (JStr s) k = Inl (Exn TypeError (''string indices must be integers, not '' @ quoted ''str''))"
| "getitem j k = Inl (Exn TypeError (quoted (type_name j) @ '' object is not subscriptable''))"

fun dict_get :: "json \<Rightarrow> string \<Rightarrow> json \<Rightarrow> exn + json" where
  "dict_get (JObj d) k dflt = (case map_of d k of Some v \<Rightarrow> Inr v | None \<Rightarrow> Inr dflt)"
| "dict_get j k dflt =
     Inl (Exn AttributeError (quoted (type_name j) @ '' object has no attribute '' @ quoted ''get''))"

fun dict_items :: "json \<Rightarrow> exn + (string \<times> json) list" where
  "dict_items (JObj d) = Inr d"
| "dict_items j =
     Inl (Exn AttributeError (quoted (type_name j) @ '' object has no attribute '' @ quoted ''items''))"

fun iterate :: "json \<Rightarrow> exn + json list" where
  "iterate (JArr xs) = Inr xs"
| "iterate (JObj d) = Inr (map (\<lambda>kv. JStr (fst kv)) d)"
| "iterate (JStr s) = Inr (map (\<lambda>c. JStr [c]) s)"
| "iterate j = Inl (Exn TypeError (quoted (type_name j) @ '' object is not iterable''))"

text \<open>
  Lines 98--101 (and 209--212): the two fence branches, applied to text that line 97 has
  already stripped of surrounding whitespace.
\<close>

definition strip_fence :: "string \<Rightarrow> string" where
  "strip_fence t =
     (if startswith t ''```json'' then strip (py_slice t 7 (- 3))
      else if startswith t ''```'' then strip (py_slice t 3 (- 3))
      else t)"

definition clean_response_text :: "string \<Rightarrow> string" where
  "clean_response_text text = strip_fence (strip text)"

text \<open>The body of the outer \<^verbatim>\<open>try\<close> of \<^verbatim>\<open>analyze_current_hazards\<close> (lines 89--115).\<close>

definition analyze_current_hazards_try ::
  "env \<Rightarrow> detector \<Rightarrow> string \<Rightarrow> world \<Rightarrow> (exn + json) \<times> world" where
  "analyze_current_hazards_try E self location w0 =
     (case model_generate_content E (model self)
             [create_hazard_analysis_prompt location ''24 hours''] w0 of
        (Inl e, w1) \<Rightarrow> (Inl e, w1)
      | (Inr text, w1) \<Rightarrow>
          if text = [] then
            self_create_error_response E location ''no_data''
              (emit (LogWarning (''No data returned for '' @ location)) w1)
          else
            (let response_text = clean_response_text text in
             case json_loads E response_text of
               Inr hazard_data \<Rightarrow>
                 (let (now, w2) = datetime_now_isoformat E w1 in
                  case setitem hazard_data ''processed_at'' (JStr now) of
                    Inl e \<Rightarrow> (Inl e, w2)
                  | Inr d1 \<Rightarrow>
                      (case setitem d1 ''source'' (JStr ''gemini_web_analysis'') of
                         Inl e \<Rightarrow> (Inl e, w2)
                       | Inr d2 \<Rightarrow>
                           (Inr d2,
                            emit (LogInfo (''Successfully analyzed hazards for '' @ location)) w2)))
             | Inl e \<Rightarrow>
                 if exn_class e = JSONDecodeError then
                   self_create_error_response E location ''json_parse_error''
                     (emit (LogError (''JSON parse error: '' @ exn_str e @ ''\<newline>Response: ''
                                      @ response_text)) w1)
                 else (Inl e, w1)))"

text \<open>
  \<^verbatim>\<open>analyze_current_hazards\<close> (lines 84--119): the \<^verbatim>\<open>try\<close> body, and the handler of
  line 117 for whatever it raises.  An exception raised inside the handler leaves the
  function.
\<close>

definition analyze_current_hazards ::
  "env \<Rightarrow> detector \<Rightarrow> string \<Rightarrow> world \<Rightarrow> (exn + json) \<times> world" where
  "analyze_current_hazards E self location w0 =
     (case analyze_current_hazards_try E self location w0 of
        (Inr r, w1) \<Rightarrow> (Inr r, w1)
      | (Inl e, w1) \<Rightarrow>
          self_create_error_response E location (exn_str e)
            (emit (LogError (''Error analyzing hazards: '' @ exn_str e)) w1))"

section \<open>The user report\<close>

definition user_report_prompt :: "string \<Rightarrow> string \<Rightarrow> string" where
  \<open>user_report_prompt report_text location = join ''\<newline>''
    [
     '''',
     ''            Analyze this user report about ocean conditions at '' @ location @ '':'',
     ''            '',
     ''            User Report: "'' @ report_text @ ''"'',
     ''            '',
     ''            Determine:'',
     ''            1. Is this a legitimate safety concern?'',
     ''            2. What type of hazard (if any) is being reported?'',
     ''            3. How urgent is this report?'',
     ''            4. What's the credibility level?'',
     ''            '',
     ''            Return in JSON format:'',
     ''            {'',
     ''                "is_hazard": true/false,'',
     ''                "hazard_type": "type if applicable",'',
     ''                "urgency": "LOW/MEDIUM/HIGH/CRITICAL",'',
     ''                "credibility": "LOW/MEDIUM/HIGH",'',
     ''                "recommended_action": "what should be done",'',
     ''                "requires_verification": true/false,'',
     ''                "location_specific": "specific area mentioned",'',
     ''                "summary": "brief summary of the report"'',
     ''            }'',
     ''            '']\<close>

text \<open>Lines 157--159: only the \<^verbatim>\<open>```json\<close> branch is present on this path.\<close>

definition clean_report_text :: "string \<Rightarrow> string" where
  "clean_report_text text =
     (let t = strip text
      in if startswith t ''```json'' then strip (py_slice t 7 (- 3)) else t)"

text \<open>
  The body of the \<^verbatim>\<open>try\<close> of \<^verbatim>\<open>analyze_user_report\<close> (lines 126--164).
  \<^verbatim>\<open>image_data\<close> is \<^verbatim>\<open>Optional[bytes]\<close>: it is true when present and not empty.
\<close>

definition analyze_user_report_try ::
  "env \<Rightarrow> detector \<Rightarrow> string \<Rightarrow> string \<Rightarrow> string option \<Rightarrow> world \<Rightarrow> (exn + json) \<times> world" where
  "analyze_user_report_try E self report_text location image_data w0 =
     (let base_prompt = user_report_prompt report_text location;
          response =
            (case image_data of
               Some img \<Rightarrow>
                 if img \<noteq> []
                 then model_generate_content E (vision_model self) [base_prompt, img] w0
                 else model_generate_content E (model self) [base_prompt] w0
             | None \<Rightarrow> model_generate_content E (model self) [base_prompt] w0)
      in case response of
           (Inl e, w1) \<Rightarrow> (Inl e, w1)
         | (Inr text, w1) \<Rightarrow>
             (case json_loads E (clean_report_text text) of
                Inl e \<Rightarrow> (Inl e, w1)
              | Inr analysis \<Rightarrow>
                  (let (now, w2) = datetime_now_isoformat E w1 in
                   case setitem analysis ''processed_at'' (JStr now) of
                     Inl e \<Rightarrow> (Inl e, w2)
                   | Inr a \<Rightarrow> (Inr a, w2))))"

definition analyze_user_report ::
  "env \<Rightarrow> detector \<Rightarrow> string \<Rightarrow> string \<Rightarrow> string option \<Rightarrow> world \<Rightarrow> (exn + json) \<times> world" where
  "analyze_user_report E self report_text location image_data w0 =
     (case analyze_user_report_try E self report_text location image_data w0 of
        (Inr r, w1) \<Rightarrow> (Inr r, w1)
      | (Inl e, w1) \<Rightarrow>
          (Inr (JObj [(''error'', JStr (exn_str e)), (''is_hazard'', JBool False)]),
           emit (LogError (''Error analyzing user report: '' @ exn_str e)) w1))"

section \<open>The batch of social posts\<close>

text \<open>
  \<^verbatim>\<open>analyze_batch_social_posts\<close> (lines 170--218), a function of the module whose first
  parameter is the detector it reads \<^verbatim>\<open>.model\<close> from.
\<close>

definition numbered_posts :: "string list \<Rightarrow> string list" where
  "numbered_posts posts =
     map (\<lambda>ip. ''Post '' @ str_nat (fst ip + 1) @ '': '' @ snd ip) (enumerate 0 posts)"

definition batch_prompt_lines :: "string list \<Rightarrow> string \<Rightarrow> string list" where
  \<open>batch_prompt_lines posts location =
    (let posts_text = join ''\<newline>\<newline>---POST---\<newline>'' (numbered_posts posts) in
    [
     '''',
     ''        Analyze these social media posts about ocean conditions near '' @ location @ '':'',
     ''        '',
     ''        '' @ posts_text,
     ''        '',
     ''        For each post that mentions a potential ocean hazard:'',
     ''        1. Extract relevant safety information'',
     ''        2. Assess credibility '',
     ''        3. Determine if it requires attention'',
     ''        '',
     ''        Return JSON:'',
     ''        {'',
     ''            "location": "'' @ location @ ''",'',
     ''            "total_posts_analyzed": '' @ str_nat (length posts) @ '','',
     ''            "hazard_posts": ['',
     ''                {'',
     ''                    "post_number": 1,'',
     ''                    "hazard_type": "type",'',
     ''                    "severity": "LOW/MEDIUM/HIGH",'',
     ''                    "credibility": "LOW/MEDIUM/HIGH",'',
     ''                    "summary": "what the post reports",'',
     ''                    "location_mentioned": "specific area if any"'',
     ''                }'',
     ''            ],'',
     ''            "overall_assessment": "summary of findings",'',
     ''            "recommendation": "what action to take if any"'',
     ''        }'',
     ''        ''])\<close>

definition batch_prompt :: "string list \<Rightarrow> string \<Rightarrow> string" where
  "batch_prompt posts location = join ''\<newline>'' (batch_prompt_lines posts location)"

definition analyze_batch_social_posts_try ::
  "env \<Rightarrow> detector \<Rightarrow> string list \<Rightarrow> string \<Rightarrow> world \<Rightarrow> (exn + json) \<times> world" where
  "analyze_batch_social_posts_try E self posts location w0 =
     (case model_generate_content E (model self) [batch_prompt posts location] w0 of
        (Inl e, w1) \<Rightarrow> (Inl e, w1)
      | (Inr text, w1) \<Rightarrow> (json_loads E (clean_response_text text), w1))"

definition analyze_batch_social_posts ::
  "env \<Rightarrow> detector \<Rightarrow> string list \<Rightarrow> string \<Rightarrow> world \<Rightarrow> (exn + json) \<times> world" where
  "analyze_batch_social_posts E self posts location w0 =
     (case analyze_batch_social_posts_try E self posts location w0 of
        (Inr r, w1) \<Rightarrow> (Inr r, w1)
      | (Inl e, w1) \<Rightarrow>
          (Inr (JObj [(''error'', JStr (exn_str e))]),
           emit (LogError (''Error in batch analysis: '' @ exn_str e)) w1))"

section \<open>The fan-out over locations\<close>

text \<open>
  The text of \<^verbatim>\<open>get_multi_location_analysis\<close> (lines 232--245): what the body would
  compute on a detector.  The \<^verbatim>\<open>def\<close> is a statement inside
  \<^verbatim>\<open>analyze_batch_social_posts\<close> that no run reaches, so the program never binds the
  name; its calls are modelled by \<open>detector_get_multi_location_analysis\<close> below.
  \<^verbatim>\<open>analyze_current_hazards\<close> contains no \<^verbatim>\<open>await\<close>, so
  \<^verbatim>\<open>asyncio.gather\<close> runs the coroutines one after the other in the order of the list;
  with \<^verbatim>\<open>return_exceptions=True\<close> an exception of a coroutine is its result.
\<close>

fun gather :: "env \<Rightarrow> detector \<Rightarrow> string list \<Rightarrow> world \<Rightarrow> (exn + json) list \<times> world" where
  "gather E self [] w = ([], w)"
| "gather E self (location # locations) w =
     (let (r, w1) = analyze_current_hazards E self location w;
          (rs, w2) = gather E self locations w1
      in (r # rs, w2))"

definition result_entry :: "exn + json \<Rightarrow> json" where
  "result_entry result =
     (case result of Inr r \<Rightarrow> r | Inl e \<Rightarrow> JObj [(''error'', JStr (exn_str e))])"

text \<open>The dictionary comprehension of lines 241--244: a later pair replaces the value of an
  equal key.\<close>

definition locations_dict :: "(string \<times> (exn + json)) list \<Rightarrow> (string \<times> json) list" where
  "locations_dict pairs =
     foldl (\<lambda>d lr. AList.update (fst lr) (result_entry (snd lr)) d) [] pairs"

definition get_multi_location_analysis ::
  "env \<Rightarrow> detector \<Rightarrow> string list \<Rightarrow> world \<Rightarrow> (exn + json) \<times> world" where
  "get_multi_location_analysis E self locations w0 =
     (let (results, w1) = gather E self locations w0;
          (now, w2) = datetime_now_isoformat E w1
      in (Inr (JObj [(''analysis_time'', JStr now),
                     (''locations'', JObj (locations_dict (zip locations results)))]), w2))"

section \<open>The polling monitor\<close>

text \<open>\<^verbatim>\<open>send_alert\<close> (lines 273--281), a method of \<^verbatim>\<open>HazardMonitoringService\<close>.\<close>

fun print_hazards :: "json list \<Rightarrow> world \<Rightarrow> (exn + unit) \<times> world" where
  "print_hazards [] w = (Inr (), w)"
| "print_hazards (hazard # hazards) w =
     (case getitem hazard ''type'' of
        Inl e \<Rightarrow> (Inl e, w)
      | Inr t \<Rightarrow>
          (case getitem hazard ''description'' of
             Inl e \<Rightarrow> (Inl e, w)
           | Inr d \<Rightarrow> print_hazards hazards (emit (PrintHazard t d) w)))"

definition send_alert :: "string \<Rightarrow> json \<Rightarrow> world \<Rightarrow> (exn + unit) \<times> world" where
  "send_alert location hazard_data w0 =
     (let w1 = emit (PrintAlert location) w0 in
      case getitem hazard_data ''overall_risk_level'' of
        Inl e \<Rightarrow> (Inl e, w1)
      | Inr level \<Rightarrow>
          (let w2 = emit (PrintRisk level) w1 in
           case dict_get hazard_data ''hazards'' (JArr []) of
             Inl e \<Rightarrow> (Inl e, w2)
           | Inr hazards \<Rightarrow>
               (case iterate hazards of
                  Inl e \<Rightarrow> (Inl e, w2)
                | Inr items \<Rightarrow> print_hazards items w2)))"

text \<open>
  The program's two calls of the fan-out:
  \<^verbatim>\<open>self.detector.get_multi_location_analysis(locations)\<close> of line 259 and
  \<^verbatim>\<open>detector.get_multi_location_analysis(locations)\<close> of line 359.  In both the receiver
  is an \<^verbatim>\<open>OceanHazardDetector\<close> (lines 250 and 332), and the name is looked up on it.
\<close>

definition detector_get_multi_location_analysis ::
  "env \<Rightarrow> detector \<Rightarrow> string list \<Rightarrow> world \<Rightarrow> (exn + json) \<times> world" where
  "detector_get_multi_location_analysis E det locations w =
     (if hasattr ''get_multi_location_analysis''
      then get_multi_location_analysis E det locations w
      else (Inl (attribute_error ''get_multi_location_analysis''), w))"

text \<open>The \<^verbatim>\<open>for\<close> loop of lines 262--264.\<close>

fun process_results :: "(string \<times> json) list \<Rightarrow> world \<Rightarrow> (exn + unit) \<times> world" where
  "process_results [] w = (Inr (), w)"
| "process_results ((location, data) # rest) w =
     (case dict_get data ''overall_risk_level'' JNull of
        Inl e \<Rightarrow> (Inl e, w)
      | Inr level \<Rightarrow>
          if level = JStr ''HIGH'' \<or> level = JStr ''EXTREME''
          then (case send_alert location data w of
                  (Inl e, w1) \<Rightarrow> (Inl e, w1)
                | (Inr u, w1) \<Rightarrow> process_results rest w1)
          else process_results rest w)"

text \<open>One pass through the body of \<^verbatim>\<open>while True\<close> (lines 257--271).\<close>

definition monitoring_cycle_try ::
  "env \<Rightarrow> detector \<Rightarrow> string list \<Rightarrow> int \<Rightarrow> world \<Rightarrow> (exn + unit) \<times> world" where
  "monitoring_cycle_try E det locations interval_minutes w0 =
     (let w1 = emit (Print (''Monitoring '' @ str_nat (length locations) @ '' locations...'')) w0 in
      case detector_get_multi_location_analysis E det locations w1 of
        (Inl e, w2) \<Rightarrow> (Inl e, w2)
      | (Inr results, w2) \<Rightarrow>
          (case getitem results ''locations'' of
             Inl e \<Rightarrow> (Inl e, w2)
           | Inr locs \<Rightarrow>
               (case dict_items locs of
                  Inl e \<Rightarrow> (Inl e, w2)
                | Inr items \<Rightarrow>
                    (case process_results items w2 of
                       (Inl e, w3) \<Rightarrow> (Inl e, w3)
                     | (Inr u, w3) \<Rightarrow> (Inr (), emit (Sleep (interval_minutes * 60)) w3)))))"

definition monitoring_cycle :: "env \<Rightarrow> detector \<Rightarrow> string list \<Rightarrow> int \<Rightarrow> world \<Rightarrow> world" where
  "monitoring_cycle E det locations interval_minutes w0 =
     (case monitoring_cycle_try E det locations interval_minutes w0 of
        (Inr u, w1) \<Rightarrow> w1
      | (Inl e, w1) \<Rightarrow>
          emit (Sleep 60) (emit (LogError (''Error in continuous monitoring: '' @ exn_str e)) w1))"

text \<open>
  \<^verbatim>\<open>continuous_monitoring\<close> (lines 252--271): the loop has no exit, so the function is
  partial; \<open>None\<close> is "does not return".
\<close>

partial_function (option) continuous_monitoring ::
  "env \<Rightarrow> detector \<Rightarrow> string list \<Rightarrow> int \<Rightarrow> world \<Rightarrow> world option" where
  "continuous_monitoring E det locations interval_minutes w =
     continuous_monitoring E det locations interval_minutes
       (monitoring_cycle E det locations interval_minutes w)"

section \<open>Deterministic stubs for the external collaborators\<close>

text \<open>
  A model that gives the same outcome to every call, a parser given by a table from text to
  value (any other text is a \<^verbatim>\<open>JSONDecodeError\<close>), and a clock that stands still.
\<close>

definition stub_env :: "exn + string \<Rightarrow> (string \<times> json) list \<Rightarrow> env" where
  "stub_env reply table =
     \<lparr>generate_content = (\<lambda>k m contents. reply),
      json_loads = (\<lambda>s. case map_of table s of
                           Some v \<Rightarrow> Inr v
                         | None \<Rightarrow> Inl (Exn JSONDecodeError ''Expecting value'')),
      now_isoformat = (\<lambda>k. ''2025-01-01T00:00:00'')\<rparr>"

definition world0 :: world where
  "world0 = \<lparr>model_calls = 0, clock_reads = 0, events = []\<rparr>"

definition detector0 :: detector where
  "detector0 = fst (OceanHazardDetector_init ''secret'' \<lparr>genai_api_key = None\<rparr>)"

text \<open>A reply in a \<^verbatim>\<open>```json\<close> fence around a well-formed report for location \<^verbatim>\<open>X\<close>.\<close>

definition fenced_reply :: string where
  \<open>fenced_reply = ''```json\<newline>{"location": "X", "overall_risk_level": "LOW", "hazards": []}\<newline>```''\<close>

definition fenced_env :: env where
  \<open>fenced_env = stub_env (Inr fenced_reply)
     [(''{"location": "X", "overall_risk_level": "LOW", "hazards": []}'',
       JObj [(''location'', JStr ''X''), (''overall_risk_level'', JStr ''LOW''),
             (''hazards'', JArr [])])]\<close>

text \<open>A reply that reports no post and no hazard.\<close>

definition empty_batch_reply :: string where
  \<open>empty_batch_reply = ''{"total_posts_analyzed": 0, "hazard_posts": []}''\<close>

definition empty_batch_env :: env where
  "empty_batch_env = stub_env (Inr empty_batch_reply)
     [(empty_batch_reply,
       JObj [(''total_posts_analyzed'', JInt 0), (''hazard_posts'', JArr [])])]"

text \<open>A model that reports the risk level \<^verbatim>\<open>EXTREME\<close>.\<close>

definition extreme_reply :: string where
  \<open>extreme_reply = ''{"overall_risk_level": "EXTREME"}''\<close>

definition extreme_env :: env where
  "extreme_env = stub_env (Inr extreme_reply)
     [(extreme_reply, JObj [(''overall_risk_level'', JStr ''EXTREME'')])]"

section \<open>The shapes the specification names\<close>

definition risk_levels :: "string list" where
  "risk_levels = [''LOW'', ''MEDIUM'', ''HIGH'', ''EXTREME'', ''UNKNOWN'']"

text \<open>
  The postcondition the specification gives for the hazard scan at location \<open>L\<close>: an object
  whose \<^verbatim>\<open>location\<close> is \<open>L\<close>, whose \<^verbatim>\<open>overall_risk_level\<close> is one of the five
  levels, and that has a \<^verbatim>\<open>hazards\<close> field.
\<close>

definition hazard_report_ok :: "string \<Rightarrow> exn + json \<Rightarrow> bool" where
  "hazard_report_ok L result =
     (case result of
        Inl e \<Rightarrow> False
      | Inr j \<Rightarrow>
          (case j of
             JObj d \<Rightarrow>
               map_of d ''location'' = Some (JStr L)
               \<and> (case map_of d ''overall_risk_level'' of
                      Some (JStr s) \<Rightarrow> s \<in> set risk_levels
                    | _ \<Rightarrow> False)
               \<and> map_of d ''hazards'' \<noteq> None
           | _ \<Rightarrow> False))"

text \<open>The \<^verbatim>\<open>ErrorResponse\<close> shape with a given error code, whatever its
  \<^verbatim>\<open>analysis_time\<close>.\<close>

definition is_error_response :: "string \<Rightarrow> string \<Rightarrow> exn + json \<Rightarrow> bool" where
  "is_error_response L code result =
     (case result of
        Inl e \<Rightarrow> False
      | Inr j \<Rightarrow>
          (case j of
             JObj d \<Rightarrow>
               map_of d ''location'' = Some (JStr L)
               \<and> map_of d ''overall_risk_level'' = Some (JStr ''UNKNOWN'')
               \<and> map_of d ''hazards'' = Some (JArr [])
               \<and> map_of d ''error'' = Some (JStr code)
               \<and> map_of d ''analysis_time'' \<noteq> None
           | _ \<Rightarrow> False))"

text \<open>The postcondition the specification gives for an empty batch of posts.\<close>

definition empty_batch_ok :: "exn + json \<Rightarrow> bool" where
  "empty_batch_ok result =
     (case result of
        Inl e \<Rightarrow> False
      | Inr j \<Rightarrow>
          (case j of
             JObj d \<Rightarrow>
               map_of d ''total_posts_analyzed'' = Some (JInt 0)
               \<and> map_of d ''hazard_posts'' = Some (JArr [])
           | _ \<Rightarrow> False))"

text \<open>
  The postcondition the specification gives for the fan-out over \<open>N\<close> locations: the
  \<^verbatim>\<open>locations\<close> mapping has exactly \<open>N\<close> keys, and they are the input locations.
\<close>

definition multi_location_ok :: "string list \<Rightarrow> exn + json \<Rightarrow> bool" where
  "multi_location_ok locations result =
     (case result of
        Inl e \<Rightarrow> False
      | Inr j \<Rightarrow>
          (case getitem j ''locations'' of
             Inr (JObj d) \<Rightarrow>
               length d = length locations
               \<and> set (map fst d) = set locations
               \<and> distinct (map fst d)
           | _ \<Rightarrow> False))"

section \<open>Attribute lookup on the detector\<close>

lemma no_create_error_response: "\<not> hasattr ''_create_error_response''"
  by (simp add: hasattr_def OceanHazardDetector_attributes_def)

lemma no_get_multi_location_analysis: "\<not> hasattr ''get_multi_location_analysis''"
  by (simp add: hasattr_def OceanHazardDetector_attributes_def)

lemma self_create_error_response_raises:
  "self_create_error_response E location error w =
     (Inl (attribute_error ''_create_error_response''), w)"
  by (simp add: self_create_error_response_def no_create_error_response)

lemma setitem_Inr:
  "setitem j k v = Inr j' \<longleftrightarrow> (\<exists>d. j = JObj d \<and> j' = JObj (AList.update k v d))"
  by (cases j) auto

lemmas stub_simps = stub_env_def world0_def detector0_def OceanHazardDetector_init_def
  model_generate_content_def datetime_now_isoformat_def emit_def

lemmas text_simps = clean_response_text_def clean_report_text_def strip_fence_def strip_def
  isspace_def startswith_def py_slice_def

section \<open>Outcomes of the hazard scan\<close>

lemma analyze_current_hazards_handler_raises:
  assumes "fst (analyze_current_hazards_try E self L w) = Inl e"
  shows "fst (analyze_current_hazards E self L w)
           = Inl (attribute_error ''_create_error_response'')"
  using assms
  by (cases "analyze_current_hazards_try E self L w")
     (simp add: analyze_current_hazards_def self_create_error_response_raises)

lemma analyze_current_hazards_try_returns_object:
  assumes "analyze_current_hazards_try E self L w = (Inr j, w1)"
  shows "\<exists>d. j = JObj d"
  using assms
  by (auto simp add: analyze_current_hazards_try_def self_create_error_response_raises Let_def
      setitem_Inr split: prod.splits sum.splits if_splits)

text \<open>
  Whatever the model and the parser do, the hazard scan either returns a dictionary or
  leaves with the \<^verbatim>\<open>AttributeError\<close> of the failed lookup.
\<close>

lemma analyze_current_hazards_outcomes:
  "fst (analyze_current_hazards E self L w) = Inl (attribute_error ''_create_error_response'')
   \<or> (\<exists>d. fst (analyze_current_hazards E self L w) = Inr (JObj d))"
proof (cases "analyze_current_hazards_try E self L w")
  case (Pair r w1)
  show ?thesis
  proof (cases r)
    case (Inl e)
    with Pair show ?thesis
      by (simp add: analyze_current_hazards_def self_create_error_response_raises)
  next
    case (Inr j)
    with Pair obtain d where "j = JObj d"
      using analyze_current_hazards_try_returns_object by blast
    with Pair Inr show ?thesis
      by (simp add: analyze_current_hazards_def)
  qed
qed

text \<open>
  C3.  The specification maps empty model text to the \<^verbatim>\<open>ErrorResponse\<close> with code
  \<^verbatim>\<open>no_data\<close>, text that is not JSON to the one with code \<^verbatim>\<open>json_parse_error\<close>,
  and any other exception to the one that carries the exception's text.
  In the source both paths call \<^verbatim>\<open>self._create_error_response\<close>, which is not an attribute
  of the detector: with a model that returns empty text, with one that returns
  \<^verbatim>\<open>not json\<close> and with one that raises a timeout, the scan of \<^verbatim>\<open>Malibu\<close> leaves
  with \<^verbatim>\<open>AttributeError\<close> and returns no error response.
\<close>

theorem analyze_current_hazards_error_paths_raise:
  "fst (analyze_current_hazards (stub_env (Inr '''') []) detector0 ''Malibu'' world0)
     = Inl (attribute_error ''_create_error_response'')
   \<and> \<not> is_error_response ''Malibu'' ''no_data''
         (fst (analyze_current_hazards (stub_env (Inr '''') []) detector0 ''Malibu'' world0))
   \<and> fst (analyze_current_hazards (stub_env (Inr ''not json'') []) detector0 ''Malibu'' world0)
     = Inl (attribute_error ''_create_error_response'')
   \<and> \<not> is_error_response ''Malibu'' ''json_parse_error''
         (fst (analyze_current_hazards (stub_env (Inr ''not json'') []) detector0 ''Malibu'' world0))
   \<and> fst (analyze_current_hazards
            (stub_env (Inl (Exn (OtherException ''TimeoutError'') ''timed out'')) [])
            detector0 ''Malibu'' world0)
     = Inl (attribute_error ''_create_error_response'')
   \<and> \<not> is_error_response ''Malibu'' ''timed out''
         (fst (analyze_current_hazards
                 (stub_env (Inl (Exn (OtherException ''TimeoutError'') ''timed out'')) [])
                 detector0 ''Malibu'' world0))"
  by (simp add: analyze_current_hazards_def analyze_current_hazards_try_def
      self_create_error_response_raises stub_simps text_simps is_error_response_def)

section \<open>Outcomes of the user report\<close>

lemma analyze_user_report_returns:
  "\<exists>j. fst (analyze_user_report E self report_text location image_data w) = Inr j"
  by (cases "analyze_user_report_try E self report_text location image_data w")
     (auto simp add: analyze_user_report_def split: sum.splits)

lemma analyze_user_report_failure_shape:
  assumes "fst (analyze_user_report_try E self report_text location image_data w) = Inl e"
  shows "fst (analyze_user_report E self report_text location image_data w)
           = Inr (JObj [(''error'', JStr (exn_str e)), (''is_hazard'', JBool False)])"
  using assms
  by (cases "analyze_user_report_try E self report_text location image_data w")
     (simp add: analyze_user_report_def)

text \<open>
  C4.  The specification says that neither \<^verbatim>\<open>analyze_current_hazards\<close> nor
  \<^verbatim>\<open>analyze_user_report\<close> raises to its caller.  With a model call that raises a
  connection error, the user report returns the pair of \<^verbatim>\<open>error\<close> and
  \<^verbatim>\<open>is_hazard: false\<close>, and the hazard scan raises \<^verbatim>\<open>AttributeError\<close> out of its own
  handler.
\<close>

theorem hazard_scan_raises_where_user_report_returns:
  "fst (analyze_user_report
          (stub_env (Inl (Exn (OtherException ''ConnectionError'') ''network unreachable'')) [])
          detector0 ''shark near the pier'' ''Malibu'' None world0)
     = Inr (JObj [(''error'', JStr ''network unreachable''), (''is_hazard'', JBool False)])
   \<and> fst (analyze_current_hazards
          (stub_env (Inl (Exn (OtherException ''ConnectionError'') ''network unreachable'')) [])
          detector0 ''Malibu'' world0)
     = Inl (Exn AttributeError
         (quoted ''OceanHazardDetector'' @ '' object has no attribute ''
          @ quoted ''_create_error_response''))"
  by (simp add: analyze_current_hazards_def analyze_current_hazards_try_def
      analyze_user_report_def analyze_user_report_try_def attribute_error_def
      self_create_error_response_raises stub_simps)

section \<open>Fence stripping\<close>

lemma startswith_append:
  assumes "startswith t (p @ q)"
  shows "startswith t p"
proof -
  from assms have "take (length p + length q) t = p @ q"
    by (simp add: startswith_def)
  then have "take (length p) (take (length p + length q) t) = take (length p) (p @ q)"
    by simp
  then show ?thesis
    by (simp add: startswith_def min_def)
qed

lemma startswith_fence_json: "startswith t ''```json'' \<Longrightarrow> startswith t ''```''"
  using startswith_append [of t "''```''" "''json''"] by simp

text \<open>
  The two slices of the fence branches: \<^verbatim>\<open>t[7:-3]\<close> drops seven characters at the start
  and three at the end, \<^verbatim>\<open>t[3:-3]\<close> three at each end; on text shorter than the two
  markers together both give the empty string.
\<close>

lemma py_slice_json_fence: "py_slice t 7 (- 3) = drop 7 (take (length t - 3) t)"
  by (simp add: py_slice_def Let_def drop_take nat_diff_distrib' max_def min_def)

lemma py_slice_bare_fence: "py_slice t 3 (- 3) = drop 3 (take (length t - 3) t)"
  by (simp add: py_slice_def Let_def drop_take nat_diff_distrib' max_def min_def)

lemma hazard_scan_fence_branches:
  "startswith t ''```json'' \<Longrightarrow>
     strip_fence t = strip (drop 7 (take (length t - 3) t))"
  "\<not> startswith t ''```json'' \<Longrightarrow> startswith t ''```'' \<Longrightarrow>
     strip_fence t = strip (drop 3 (take (length t - 3) t))"
  by (simp_all add: strip_fence_def py_slice_json_fence py_slice_bare_fence)

text \<open>
  C5.  The specification has both fence variants handled on every path.  For the reply
  \<^verbatim>\<open>```\<close>, newline, \<^verbatim>\<open>{}\<close>, newline, \<^verbatim>\<open>```\<close> the hazard-scan and batch paths hand
  \<^verbatim>\<open>{}\<close> to the parser, and the batch analysis returns the parsed object; the user-report
  path has no branch for the bare fence, hands the whole text to the parser and returns the
  error pair.
\<close>

theorem user_report_keeps_bare_fence:
  "clean_response_text ''```\<newline>{}\<newline>```'' = ''{}''
   \<and> clean_report_text ''```\<newline>{}\<newline>```'' = ''```\<newline>{}\<newline>```''
   \<and> fst (analyze_batch_social_posts
            (stub_env (Inr ''```\<newline>{}\<newline>```'') [(''{}'', JObj [])])
            detector0 [] ''Malibu'' world0) = Inr (JObj [])
   \<and> fst (analyze_user_report
            (stub_env (Inr ''```\<newline>{}\<newline>```'') [(''{}'', JObj [])])
            detector0 ''shark near the pier'' ''Malibu'' None world0)
       = Inr (JObj [(''error'', JStr ''Expecting value''), (''is_hazard'', JBool False)])"
  by (simp add: analyze_batch_social_posts_def analyze_batch_social_posts_try_def
      analyze_user_report_def analyze_user_report_try_def stub_simps text_simps)

text \<open>
  C8.  Text that does not start with a fence marker passes the fence step of lines 98--101
  unchanged, so the step is idempotent on it and the parser sees the same text with or
  without the step; when the text also has no surrounding whitespace, the whole clean-up of
  either path returns it as it is.
\<close>

theorem strip_fence_on_clean_text:
  assumes "\<not> startswith t ''```''"
  shows "strip_fence t = t
         \<and> strip_fence (strip_fence t) = strip_fence t
         \<and> json_loads E (strip_fence t) = json_loads E t
         \<and> (strip t = t \<longrightarrow> clean_response_text t = t \<and> clean_report_text t = t)"
proof -
  from assms have nj: "\<not> startswith t ''```json''"
    using startswith_fence_json by blast
  from assms nj have sf: "strip_fence t = t"
    by (simp add: strip_fence_def)
  from nj have "strip t = t \<longrightarrow> clean_report_text t = t"
    by (simp add: clean_report_text_def)
  with sf show ?thesis
    by (simp add: clean_response_text_def)
qed

theorem strip_fence_on_clean_text_witness:
  "\<not> startswith ''{}'' ''```''
   \<and> strip_fence ''{}'' = ''{}''
   \<and> strip ''{}'' = ''{}''
   \<and> clean_response_text ''{}'' = ''{}''
   \<and> clean_report_text ''{}'' = ''{}''"
proof -
  have h: "\<not> startswith ''{}'' ''```''"
    by (simp add: startswith_def)
  have s: "strip ''{}'' = ''{}''"
    by (simp add: strip_def isspace_def)
  from strip_fence_on_clean_text [OF h] s h show ?thesis
    by blast
qed

section \<open>The constructor\<close>

text \<open>
  C10.  Constructing the detector with any two values of \<^verbatim>\<open>api_key\<close> gives the same
  detector and the same client configuration: the key the client holds afterwards is the
  literal \<^verbatim>\<open>API_KEY\<close>.
\<close>

theorem OceanHazardDetector_init_ignores_api_key:
  "OceanHazardDetector_init api_key1 g = OceanHazardDetector_init api_key2 g
   \<and> genai_api_key (snd (OceanHazardDetector_init api_key1 g)) = Some ''API_KEY''"
  by (simp add: OceanHazardDetector_init_def genai_configure_def)

section \<open>The success path of the hazard scan\<close>

lemma strip_no_space_ends:
  assumes "\<not> isspace a" and "\<not> isspace b"
  shows "strip (a # s @ [b]) = a # s @ [b]"
  using assms by (simp add: strip_def)

text \<open>A reply that is exactly a \<^verbatim>\<open>```json\<close> fence around a body is cleaned to the body
  without its surrounding whitespace.\<close>

lemma clean_response_text_json_fence:
  "clean_response_text (''```json'' @ body @ ''```'') = strip body"
proof -
  have "strip (''```json'' @ body @ ''```'') = ''```json'' @ body @ ''```''"
    using strip_no_space_ends [of "CHR 0x60" "CHR 0x60" "''``json'' @ body @ ''``''"]
    by (simp add: isspace_def)
  moreover have "startswith (''```json'' @ body @ ''```'') ''```json''"
    by (simp add: startswith_def)
  moreover have "py_slice (''```json'' @ body @ ''```'') 7 (- 3) = body"
    by (simp add: py_slice_def)
  ultimately show ?thesis
    by (simp add: clean_response_text_def strip_fence_def)
qed

lemma analyze_current_hazards_on_object:
  assumes reply: "generate_content E (model_calls w) (model self)
                    [create_hazard_analysis_prompt L ''24 hours''] = Inr reply"
    and nonempty: "reply \<noteq> []"
    and parsed: "json_loads E (clean_response_text reply) = Inr (JObj d)"
  shows "fst (analyze_current_hazards E self L w) =
           Inr (JObj (AList.update ''source'' (JStr ''gemini_web_analysis'')
                  (AList.update ''processed_at'' (JStr (now_isoformat E (clock_reads w))) d)))"
  using assms
  by (simp add: analyze_current_hazards_def analyze_current_hazards_try_def
      model_generate_content_def datetime_now_isoformat_def Let_def)

lemma fenced_env_reply:
  "generate_content fenced_env (model_calls world0) (model detector0)
     [create_hazard_analysis_prompt ''X'' ''24 hours''] = Inr fenced_reply"
  by (simp add: fenced_env_def stub_env_def)

lemma fenced_reply_nonempty: "fenced_reply \<noteq> []"
  by (simp add: fenced_reply_def)

lemma fenced_env_parsed:
  "json_loads fenced_env (clean_response_text fenced_reply) =
     Inr (JObj [(''location'', JStr ''X''), (''overall_risk_level'', JStr ''LOW''),
                (''hazards'', JArr [])])"
  by (simp add: fenced_env_def fenced_reply_def stub_env_def text_simps)

text \<open>
  C6.  When the model returns non-empty text that, after the clean-up, parses to a JSON
  object \<open>d\<close>, the hazard scan returns \<open>d\<close> with \<^verbatim>\<open>processed_at\<close> set to the clock
  reading and \<^verbatim>\<open>source\<close> set to \<^verbatim>\<open>gemini_web_analysis\<close>: every other key keeps its
  value, the keys are those of \<open>d\<close> and these two, and for a reply wrapped in a
  \<^verbatim>\<open>```json\<close> fence the text that is parsed is the body inside the fence.
\<close>

theorem analyze_current_hazards_adds_metadata:
  assumes reply: "generate_content E (model_calls w) (model self)
                    [create_hazard_analysis_prompt L ''24 hours''] = Inr reply"
    and nonempty: "reply \<noteq> []"
    and parsed: "json_loads E (clean_response_text reply) = Inr (JObj d)"
  shows "\<exists>d'. fst (analyze_current_hazards E self L w) = Inr (JObj d')
           \<and> d' = AList.update ''source'' (JStr ''gemini_web_analysis'')
                   (AList.update ''processed_at'' (JStr (now_isoformat E (clock_reads w))) d)
           \<and> map_of d' ''processed_at'' = Some (JStr (now_isoformat E (clock_reads w)))
           \<and> map_of d' ''source'' = Some (JStr ''gemini_web_analysis'')
           \<and> (\<forall>k. k \<noteq> ''processed_at'' \<and> k \<noteq> ''source'' \<longrightarrow> map_of d' k = map_of d k)
           \<and> set (map fst d') = set (map fst d) \<union> {''processed_at'', ''source''}
           \<and> (\<forall>body. reply = ''```json'' @ body @ ''```''
                  \<longrightarrow> json_loads E (strip body) = Inr (JObj d))"
proof -
  let ?d' = "AList.update ''source'' (JStr ''gemini_web_analysis'')
               (AList.update ''processed_at'' (JStr (now_isoformat E (clock_reads w))) d)"
  have res: "fst (analyze_current_hazards E self L w) = Inr (JObj ?d')"
    using analyze_current_hazards_on_object [OF assms] .
  have p: "map_of ?d' ''processed_at'' = Some (JStr (now_isoformat E (clock_reads w)))"
    by (simp add: update_conv')
  have s: "map_of ?d' ''source'' = Some (JStr ''gemini_web_analysis'')"
    by (simp add: update_conv')
  have f: "\<forall>k. k \<noteq> ''processed_at'' \<and> k \<noteq> ''source'' \<longrightarrow> map_of ?d' k = map_of d k"
    by (simp add: update_conv')
  have k: "set (map fst ?d') = set (map fst d) \<union> {''processed_at'', ''source''}"
    using dom_update [of "''source''" _
            "AList.update ''processed_at'' (JStr (now_isoformat E (clock_reads w))) d"]
      dom_update [of "''processed_at''" "JStr (now_isoformat E (clock_reads w))" d]
    by auto
  have b: "\<forall>body. reply = ''```json'' @ body @ ''```''
             \<longrightarrow> json_loads E (strip body) = Inr (JObj d)"
    using parsed clean_response_text_json_fence by auto
  from res p s f k b show ?thesis by blast
qed

theorem analyze_current_hazards_adds_metadata_witness:
  "generate_content fenced_env (model_calls world0) (model detector0)
     [create_hazard_analysis_prompt ''X'' ''24 hours''] = Inr fenced_reply
   \<and> fenced_reply \<noteq> []
   \<and> json_loads fenced_env (clean_response_text fenced_reply) =
     Inr (JObj [(''location'', JStr ''X''), (''overall_risk_level'', JStr ''LOW''),
                (''hazards'', JArr [])])
   \<and> fst (analyze_current_hazards fenced_env detector0 ''X'' world0) =
     Inr (JObj [(''location'', JStr ''X''), (''overall_risk_level'', JStr ''LOW''),
                (''hazards'', JArr []),
                (''processed_at'', JStr ''2025-01-01T00:00:00''),
                (''source'', JStr ''gemini_web_analysis'')])"
proof -
  have now: "now_isoformat fenced_env (clock_reads world0) = ''2025-01-01T00:00:00''"
    by (simp add: fenced_env_def stub_env_def)
  from analyze_current_hazards_adds_metadata
         [OF fenced_env_reply fenced_reply_nonempty fenced_env_parsed]
  have "fst (analyze_current_hazards fenced_env detector0 ''X'' world0) =
     Inr (JObj [(''location'', JStr ''X''), (''overall_risk_level'', JStr ''LOW''),
                (''hazards'', JArr []),
                (''processed_at'', JStr ''2025-01-01T00:00:00''),
                (''source'', JStr ''gemini_web_analysis'')])"
    by (auto simp add: now)
  with fenced_env_reply fenced_reply_nonempty fenced_env_parsed show ?thesis
    by blast
qed

text \<open>
  C1, as the specification states it, fails on the success path: the scan returns what the
  model said.  With a model that answers \<^verbatim>\<open>{}\<close> the scan of \<^verbatim>\<open>Malibu\<close> returns an
  object that has no \<^verbatim>\<open>location\<close>, no \<^verbatim>\<open>overall_risk_level\<close> and no
  \<^verbatim>\<open>hazards\<close>.
\<close>

theorem hazard_scan_relays_empty_object:
  "\<not> hazard_report_ok ''Malibu''
       (fst (analyze_current_hazards (stub_env (Inr ''{}'') [(''{}'', JObj [])])
               detector0 ''Malibu'' world0))"
  by (simp add: analyze_current_hazards_def analyze_current_hazards_try_def
      hazard_report_ok_def stub_simps text_simps)

lemma hazard_report_ok_object:
  assumes "hazard_report_ok L (Inr j)"
  obtains d where "j = JObj d"
  using assms by (cases j) (simp_all add: hazard_report_ok_def)

text \<open>
  C1, amended.  For every location \<open>L\<close>: when the model returns non-empty text that, after
  the clean-up, parses to an object whose \<^verbatim>\<open>location\<close> is \<open>L\<close>, whose
  \<^verbatim>\<open>overall_risk_level\<close> is one of the five levels and that has a \<^verbatim>\<open>hazards\<close>
  field, the hazard scan returns an object with the same three properties.
\<close>

theorem analyze_current_hazards_relays_report:
  assumes reply: "generate_content E (model_calls w) (model self)
                    [create_hazard_analysis_prompt L ''24 hours''] = Inr reply"
    and nonempty: "reply \<noteq> []"
    and parsed: "json_loads E (clean_response_text reply) = Inr j"
    and ok: "hazard_report_ok L (Inr j)"
  shows "hazard_report_ok L (fst (analyze_current_hazards E self L w))"
proof -
  from ok obtain d where j: "j = JObj d"
    by (rule hazard_report_ok_object)
  from parsed j have "json_loads E (clean_response_text reply) = Inr (JObj d)"
    by simp
  from analyze_current_hazards_on_object [OF reply nonempty this] ok j
  show ?thesis
    by (simp add: hazard_report_ok_def update_conv')
qed

theorem analyze_current_hazards_relays_report_witness:
  "generate_content fenced_env (model_calls world0) (model detector0)
     [create_hazard_analysis_prompt ''X'' ''24 hours''] = Inr fenced_reply
   \<and> fenced_reply \<noteq> []
   \<and> json_loads fenced_env (clean_response_text fenced_reply) =
     Inr (JObj [(''location'', JStr ''X''), (''overall_risk_level'', JStr ''LOW''),
                (''hazards'', JArr [])])
   \<and> hazard_report_ok ''X''
       (Inr (JObj [(''location'', JStr ''X''), (''overall_risk_level'', JStr ''LOW''),
                   (''hazards'', JArr [])]))
   \<and> hazard_report_ok ''X'' (fst (analyze_current_hazards fenced_env detector0 ''X'' world0))"
proof -
  have ok: "hazard_report_ok ''X''
       (Inr (JObj [(''location'', JStr ''X''), (''overall_risk_level'', JStr ''LOW''),
                   (''hazards'', JArr [])]))"
    by (simp add: hazard_report_ok_def risk_levels_def)
  from analyze_current_hazards_relays_report
         [OF fenced_env_reply fenced_reply_nonempty fenced_env_parsed ok]
       fenced_env_reply fenced_reply_nonempty fenced_env_parsed ok
  show ?thesis by blast
qed

section \<open>The empty batch\<close>

text \<open>
  C9, as the specification states it, fails: the batch analysis returns what the model
  said.  With no posts and a model that answers \<^verbatim>\<open>{}\<close> the result has neither
  \<^verbatim>\<open>total_posts_analyzed\<close> nor \<^verbatim>\<open>hazard_posts\<close>.
\<close>

theorem batch_relays_empty_object:
  "\<not> empty_batch_ok
       (fst (analyze_batch_social_posts (stub_env (Inr ''{}'') [(''{}'', JObj [])])
               detector0 [] ''Los Angeles County Beaches'' world0))"
  by (simp add: analyze_batch_social_posts_def analyze_batch_social_posts_try_def
      empty_batch_ok_def stub_simps text_simps)

text \<open>
  C9, amended.  Called with no posts, the batch analysis sends a prompt that lists no post
  (its fourth line is the bare indentation) and whose schema line reads
  \<^verbatim>\<open>"total_posts_analyzed": 0,\<close>; when the model's text parses, the parsed value is
  returned unchanged, so the result has \<^verbatim>\<open>total_posts_analyzed\<close> 0 and an empty
  \<^verbatim>\<open>hazard_posts\<close> exactly when the model's reply has.
\<close>

theorem analyze_batch_social_posts_empty:
  assumes reply: "generate_content E (model_calls w) (model self) [batch_prompt [] location]
                    = Inr reply"
    and parsed: "json_loads E (clean_response_text reply) = Inr j"
  shows \<open>fst (analyze_batch_social_posts E self [] location w) = Inr j
         \<and> empty_batch_ok (fst (analyze_batch_social_posts E self [] location w))
             = empty_batch_ok (Inr j)
         \<and> numbered_posts [] = []
         \<and> batch_prompt_lines [] location ! 3 = ''        ''
         \<and> batch_prompt_lines [] location ! 13 = ''            "total_posts_analyzed": 0,''\<close>
proof -
  have r: "fst (analyze_batch_social_posts E self [] location w) = Inr j"
    using assms
    by (simp add: analyze_batch_social_posts_def analyze_batch_social_posts_try_def
        model_generate_content_def)
  have n: "numbered_posts [] = []"
    by (simp add: numbered_posts_def enumerate_eq_zip)
  have l3: "batch_prompt_lines [] location ! 3 = ''        ''"
    by (simp add: batch_prompt_lines_def n)
  have l13: \<open>batch_prompt_lines [] location ! 13 = ''            "total_posts_analyzed": 0,''\<close>
    by (simp add: batch_prompt_lines_def n str_nat.simps [of 0] digit_char_def)
  from r n l3 l13 show ?thesis by simp
qed

theorem analyze_batch_social_posts_empty_witness:
  "generate_content empty_batch_env (model_calls world0) (model detector0)
     [batch_prompt [] ''Los Angeles County Beaches''] = Inr empty_batch_reply
   \<and> json_loads empty_batch_env (clean_response_text empty_batch_reply) =
     Inr (JObj [(''total_posts_analyzed'', JInt 0), (''hazard_posts'', JArr [])])
   \<and> fst (analyze_batch_social_posts empty_batch_env detector0 []
            ''Los Angeles County Beaches'' world0)
     = Inr (JObj [(''total_posts_analyzed'', JInt 0), (''hazard_posts'', JArr [])])
   \<and> empty_batch_ok (fst (analyze_batch_social_posts empty_batch_env detector0 []
            ''Los Angeles County Beaches'' world0))"
proof -
  have h1: "generate_content empty_batch_env (model_calls world0) (model detector0)
     [batch_prompt [] ''Los Angeles County Beaches''] = Inr empty_batch_reply"
    by (simp add: empty_batch_env_def stub_env_def)
  have h2: "json_loads empty_batch_env (clean_response_text empty_batch_reply) =
     Inr (JObj [(''total_posts_analyzed'', JInt 0), (''hazard_posts'', JArr [])])"
    by (simp add: empty_batch_env_def empty_batch_reply_def stub_env_def text_simps)
  have ok: "empty_batch_ok
     (Inr (JObj [(''total_posts_analyzed'', JInt 0), (''hazard_posts'', JArr [])]))"
    by (simp add: empty_batch_ok_def)
  from analyze_batch_social_posts_empty [OF h1 h2] h1 h2 ok show ?thesis
    by simp
qed

section \<open>The fan-out\<close>

lemma gather_length: "length (fst (gather E self locations w)) = length locations"
proof (induction locations arbitrary: w)
  case Nil
  show ?case by simp
next
  case (Cons location locations)
  obtain r w1 where a: "analyze_current_hazards E self location w = (r, w1)"
    by (cases "analyze_current_hazards E self location w")
  obtain rs w2 where g: "gather E self locations w1 = (rs, w2)"
    by (cases "gather E self locations w1")
  from Cons.IH [of w1] g have "length rs = length locations"
    by simp
  with a g show ?case by simp
qed

lemma update_fresh:
  "k \<notin> fst ` set al \<Longrightarrow> AList.update k v al = al @ [(k, v)]"
  by (induction al) auto

lemma locations_fold_keys:
  "fst ` set (foldl (\<lambda>d lr. AList.update (fst lr) (result_entry (snd lr)) d) d0 pairs)
     = fst ` set d0 \<union> fst ` set pairs"
  by (induction pairs arbitrary: d0) (auto simp add: dom_update)

lemma locations_fold_distinct:
  "distinct (map fst d0) \<Longrightarrow>
   distinct (map fst (foldl (\<lambda>d lr. AList.update (fst lr) (result_entry (snd lr)) d) d0 pairs))"
  by (induction pairs arbitrary: d0) (auto simp add: distinct_update)

lemma locations_fold_map_of:
  "map_of (foldl (\<lambda>d lr. AList.update (fst lr) (result_entry (snd lr)) d) d0 pairs)
     = map_of d0 ++ map_of (rev (map (\<lambda>lr. (fst lr, result_entry (snd lr))) pairs))"
proof (induction pairs arbitrary: d0)
  case Nil
  show ?case by simp
next
  case (Cons p pairs)
  show ?case
    by (simp add: Cons.IH update_conv' map_add_upd_left fun_eq_iff map_add_def
        split: option.splits)
qed

lemma locations_fold_fresh:
  "distinct (map fst pairs) \<Longrightarrow> fst ` set pairs \<inter> fst ` set d0 = {} \<Longrightarrow>
   foldl (\<lambda>d lr. AList.update (fst lr) (result_entry (snd lr)) d) d0 pairs
     = d0 @ map (\<lambda>lr. (fst lr, result_entry (snd lr))) pairs"
proof (induction pairs arbitrary: d0)
  case Nil
  show ?case by simp
next
  case (Cons p pairs)
  from Cons.prems have fresh: "fst p \<notin> fst ` set d0"
    by auto
  from Cons.prems have "distinct (map fst pairs)"
    and "fst ` set pairs \<inter> fst ` set (d0 @ [(fst p, result_entry (snd p))]) = {}"
    by auto
  from Cons.IH [OF this] show ?case
    by (simp add: update_fresh [OF fresh])
qed

lemma zip_entries:
  "length rs = length ls \<Longrightarrow>
   map (\<lambda>lr. (fst lr, result_entry (snd lr))) (zip ls rs) = zip ls (map result_entry rs)"
  by (induction ls rs rule: list_induct2') auto

text \<open>
  What the body of lines 232--245 would return on a detector: the pair of
  \<^verbatim>\<open>analysis_time\<close> and a \<^verbatim>\<open>locations\<close> mapping whose keys are pairwise different and
  are the set of the locations given, with the entry of the last occurrence of a repeated
  location, and with one entry per location in the order of the list when the locations are
  pairwise different.
\<close>

lemma get_multi_location_analysis_mapping:
  "\<exists>d. fst (get_multi_location_analysis E self locations w)
               = Inr (JObj [(''analysis_time'',
                             JStr (now_isoformat E (clock_reads (snd (gather E self locations w))))),
                            (''locations'', JObj d)])
     \<and> set (map fst d) = set locations
     \<and> distinct (map fst d)
     \<and> length (fst (gather E self locations w)) = length locations
     \<and> map_of d = map_of (rev (zip locations (map result_entry (fst (gather E self locations w)))))
     \<and> (distinct locations \<longrightarrow>
          d = zip locations (map result_entry (fst (gather E self locations w))))
     \<and> (\<forall>v \<in> snd ` set d. \<exists>r \<in> set (fst (gather E self locations w)).
           r = Inr v \<or> (\<exists>e. r = Inl e \<and> v = JObj [(''error'', JStr (exn_str e))]))"
proof -
  obtain results w1 where g: "gather E self locations w = (results, w1)"
    by (cases "gather E self locations w")
  let ?d = "locations_dict (zip locations results)"
  have len: "length results = length locations"
    using gather_length [of E self locations w] g by simp
  have res: "fst (get_multi_location_analysis E self locations w)
      = Inr (JObj [(''analysis_time'', JStr (now_isoformat E (clock_reads w1))),
                   (''locations'', JObj ?d)])"
    by (simp add: get_multi_location_analysis_def g datetime_now_isoformat_def)
  have keys: "set (map fst ?d) = set locations"
    using locations_fold_keys [of "[]" "zip locations results"] len
    by (simp add: locations_dict_def map_fst_zip flip: set_map)
  have dist: "distinct (map fst ?d)"
    unfolding locations_dict_def by (rule locations_fold_distinct) simp
  have mo: "map_of ?d = map_of (rev (zip locations (map result_entry results)))"
    using locations_fold_map_of [of "[]" "zip locations results"] len
    by (simp add: locations_dict_def zip_entries)
  have fresh: "distinct locations \<longrightarrow> ?d = zip locations (map result_entry results)"
  proof
    assume "distinct locations"
    with len have "distinct (map fst (zip locations results))"
      by (simp add: map_fst_zip)
    from locations_fold_fresh [OF this, of "[]"] len show
      "?d = zip locations (map result_entry results)"
      by (simp add: locations_dict_def zip_entries)
  qed
  have vals: "\<forall>v \<in> snd ` set ?d. \<exists>r \<in> set results.
           r = Inr v \<or> (\<exists>e. r = Inl e \<and> v = JObj [(''error'', JStr (exn_str e))])"
  proof
    fix v assume "v \<in> snd ` set ?d"
    then obtain k where "(k, v) \<in> set ?d" by auto
    with dist have "map_of ?d k = Some v" by simp
    with mo have "map_of (rev (zip locations (map result_entry results))) k = Some v"
      by simp
    then have "(k, v) \<in> set (zip locations (map result_entry results))"
      using map_of_SomeD by fastforce
    then have "v \<in> set (map result_entry results)"
      by (rule set_zip_rightD)
    then obtain r where r: "r \<in> set results" and v: "v = result_entry r"
      by auto
    from v have "r = Inr v \<or> (\<exists>e. r = Inl e \<and> v = JObj [(''error'', JStr (exn_str e))])"
      by (cases r) (simp_all add: result_entry_def)
    with r show "\<exists>r \<in> set results.
           r = Inr v \<or> (\<exists>e. r = Inl e \<and> v = JObj [(''error'', JStr (exn_str e))])"
      by blast
  qed
  from res keys dist len mo fresh vals g show ?thesis
    by auto
qed

text \<open>
  The call through the detector raises for every list of locations, before any location is
  analysed.
\<close>

lemma detector_get_multi_location_analysis_raises:
  "detector_get_multi_location_analysis E det locations w =
     (Inl (attribute_error ''get_multi_location_analysis''), w)"
  by (simp add: detector_get_multi_location_analysis_def no_get_multi_location_analysis)

text \<open>
  C2.  The specification has \<^verbatim>\<open>get_multi_location_analysis\<close> return, for every list of
  locations, a mapping whose keys are exactly those locations, and never raise.  The program
  never binds that name: its only calls, at lines 259 and 359, look it up on an
  \<^verbatim>\<open>OceanHazardDetector\<close>.  For the three locations of line 358 and a model that
  answers every call with \<^verbatim>\<open>{}\<close>, the call raises \<^verbatim>\<open>AttributeError\<close>: no mapping is
  returned, no location is analysed and the model is not called.
\<close>

theorem get_multi_location_analysis_call_raises:
  "detector_get_multi_location_analysis (stub_env (Inr ''{}'') [(''{}'', JObj [])]) detector0
       [''Santa Monica'', ''Venice Beach'', ''Manhattan Beach''] world0
     = (Inl (Exn AttributeError
              (quoted ''OceanHazardDetector'' @ '' object has no attribute ''
               @ quoted ''get_multi_location_analysis'')),
        \<lparr>model_calls = 0, clock_reads = 0, events = []\<rparr>)
   \<and> \<not> multi_location_ok [''Santa Monica'', ''Venice Beach'', ''Manhattan Beach'']
         (fst (detector_get_multi_location_analysis (stub_env (Inr ''{}'') [(''{}'', JObj [])])
                 detector0 [''Santa Monica'', ''Venice Beach'', ''Manhattan Beach''] world0))"
  by (simp add: detector_get_multi_location_analysis_def no_get_multi_location_analysis
      attribute_error_def multi_location_ok_def world0_def)

section \<open>The monitoring loop\<close>

text \<open>
  Every pass through the loop body fails at line 259: the detector has no attribute
  \<^verbatim>\<open>get_multi_location_analysis\<close>.  The pass prints its first line, logs the error and
  sleeps 60 seconds; it calls no model, reads no clock and prints no alert.
\<close>

lemma monitoring_cycle_try_raises:
  "monitoring_cycle_try E det locations interval_minutes w =
     (Inl (attribute_error ''get_multi_location_analysis''),
      emit (Print (''Monitoring '' @ str_nat (length locations) @ '' locations...'')) w)"
  by (simp add: monitoring_cycle_try_def detector_get_multi_location_analysis_def
      no_get_multi_location_analysis Let_def)

lemma monitoring_cycle_raises:
  "monitoring_cycle E det locations interval_minutes w =
     emit (Sleep 60)
       (emit (LogError (''Error in continuous monitoring: ''
                        @ exn_str (attribute_error ''get_multi_location_analysis'')))
          (emit (Print (''Monitoring '' @ str_nat (length locations) @ '' locations...'')) w))"
  by (simp add: monitoring_cycle_def monitoring_cycle_try_raises)

text \<open>The loop does not return.\<close>

lemma continuous_monitoring_never_returns:
  "continuous_monitoring E det locations interval_minutes w = None"
proof (cases "continuous_monitoring E det locations interval_minutes w")
  case None
  then show ?thesis .
next
  case (Some y)
  have False
    by (rule continuous_monitoring.raw_induct
          [where P = "\<lambda>E det locations interval w y. False", OF _ Some]) blast
  then show ?thesis ..
qed

lemma str_nat_1: "str_nat (Suc 0) = ''1''"
  by (simp add: str_nat.simps [of "Suc 0"] digit_char_def)

text \<open>
  C7.  The specification has the alert invoked, in every cycle, for each location whose
  result has the risk level \<^verbatim>\<open>HIGH\<close> or \<^verbatim>\<open>EXTREME\<close>.  With a model that reports
  \<^verbatim>\<open>EXTREME\<close> the scan of \<^verbatim>\<open>Santa Monica\<close> returns that level, and a cycle of the
  monitor over that one location prints the monitoring line, logs the
  \<^verbatim>\<open>AttributeError\<close> and sleeps 60 seconds: no alert is printed and the model is not
  called.
\<close>

theorem monitoring_cycle_misses_extreme_risk:
  "fst (analyze_current_hazards extreme_env detector0 ''Santa Monica'' world0)
     = Inr (JObj [(''overall_risk_level'', JStr ''EXTREME''),
                  (''processed_at'', JStr ''2025-01-01T00:00:00''),
                  (''source'', JStr ''gemini_web_analysis'')])
   \<and> monitoring_cycle extreme_env detector0 [''Santa Monica''] 30 world0
     = \<lparr>model_calls = 0, clock_reads = 0,
        events = [Print ''Monitoring 1 locations...'',
                  LogError (''Error in continuous monitoring: '' @ quoted ''OceanHazardDetector''
                            @ '' object has no attribute ''
                            @ quoted ''get_multi_location_analysis''),
                  Sleep 60]\<rparr>"
proof -
  have scan: "fst (analyze_current_hazards extreme_env detector0 ''Santa Monica'' world0)
     = Inr (JObj [(''overall_risk_level'', JStr ''EXTREME''),
                  (''processed_at'', JStr ''2025-01-01T00:00:00''),
                  (''source'', JStr ''gemini_web_analysis'')])"
    by (simp add: analyze_current_hazards_def analyze_current_hazards_try_def
        extreme_env_def extreme_reply_def stub_simps text_simps)
  have cycle: "monitoring_cycle extreme_env detector0 [''Santa Monica''] 30 world0
     = \<lparr>model_calls = 0, clock_reads = 0,
        events = [Print ''Monitoring 1 locations...'',
                  LogError (''Error in continuous monitoring: '' @ quoted ''OceanHazardDetector''
                            @ '' object has no attribute ''
                            @ quoted ''get_multi_location_analysis''),
                  Sleep 60]\<rparr>"
    by (simp add: monitoring_cycle_raises attribute_error_def str_nat_1 emit_def world0_def)
  from scan cycle show ?thesis by simp
qed

end
